theory Spec2Isabelle
  imports Main "HOL-Library.Sublist"
begin

section \<open>Values decoded from the model's JSON output\<close>

text \<open>
  \<^verbatim>\<open>JsonOutputParser\<close> hands the program whatever JSON value the model's text decodes
  to. The program stores such values untyped (\<^verbatim>\<open>Dict\<close>, \<^verbatim>\<open>List[Dict]\<close>), so they are
  modelled as one datatype. A JSON object is an association list in key order, looked
  up with \<open>map_of\<close>; the keys of a decoded object are distinct. An element of a \<open>string\<close> stands for one code point. A binary64
  number is carried opaquely: the program never computes with one.
\<close>

typedecl pyfloat

datatype json =
    JNull
  | JBool bool
  | JInt int
  | JFloat pyfloat
  | JStr string
  | JList "json list"
  | JDict "(string \<times> json) list"

text \<open>
  Exceptions. \<open>Raised\<close> is any exception that comes out of a library call: an
  \<^verbatim>\<open>OutputParserException\<close> of a chain, a transport error, \<^verbatim>\<open>EOFError\<close> of \<^verbatim>\<open>input\<close>.
\<close>

datatype error = KeyError | TypeError | AttributeError | Raised string

text \<open>\<^verbatim>\<open>d.get(key, default)\<close>; \<^verbatim>\<open>d.get(key)\<close> is the call with default \<open>JNull\<close> (\<^verbatim>\<open>None\<close>).
  Only a dict has the method.\<close>

fun py_get :: "json \<Rightarrow> string \<Rightarrow> json \<Rightarrow> error + json" where
  "py_get (JDict d) k dflt = Inr (case map_of d k of None \<Rightarrow> dflt | Some v \<Rightarrow> v)"
| "py_get _ k dflt = Inl AttributeError"

text \<open>\<^verbatim>\<open>v[key]\<close> with a string key: a missing key of a dict is a \<^verbatim>\<open>KeyError\<close>, and no
  other JSON value can be subscripted with a string.\<close>

fun py_getitem :: "json \<Rightarrow> string \<Rightarrow> error + json" where
  "py_getitem (JDict d) k = (case map_of d k of None \<Rightarrow> Inl KeyError | Some v \<Rightarrow> Inr v)"
| "py_getitem _ k = Inl TypeError"

text \<open>\<^verbatim>\<open>v[:n]\<close>: lists and strings are sliced. Slicing a dict raises (a \<^verbatim>\<open>TypeError\<close>
  before Python 3.12, a \<^verbatim>\<open>KeyError\<close> since), as does slicing a number or \<^verbatim>\<open>None\<close>.\<close>

fun py_slice :: "nat \<Rightarrow> json \<Rightarrow> error + json" where
  "py_slice n (JList xs) = Inr (JList (take n xs))"
| "py_slice n (JStr s) = Inr (JStr (take n s))"
| "py_slice n _ = Inl TypeError"

text \<open>The items a \<^verbatim>\<open>for\<close> loop or \<^verbatim>\<open>join\<close> draws from a value: the elements of a list,
  the characters of a string, the keys of a dict.\<close>

fun py_iter :: "json \<Rightarrow> error + json list" where
  "py_iter (JList xs) = Inr xs"
| "py_iter (JStr s) = Inr (map (\<lambda>c. JStr [c]) s)"
| "py_iter (JDict d) = Inr (map (\<lambda>kv. JStr (fst kv)) d)"
| "py_iter _ = Inl TypeError"

fun join_str :: "string \<Rightarrow> string list \<Rightarrow> string" where
  "join_str sep [] = []"
| "join_str sep [x] = x"
| "join_str sep (x # y # ys) = x @ sep @ join_str sep (y # ys)"

text \<open>The strings of a list of values; \<^verbatim>\<open>str.join\<close> raises on an item that is not
  a string.\<close>

fun all_strs :: "json list \<Rightarrow> error + string list" where
  "all_strs [] = Inr []"
| "all_strs (JStr s # vs) = (case all_strs vs of Inl e \<Rightarrow> Inl e | Inr ss \<Rightarrow> Inr (s # ss))"
| "all_strs (_ # vs) = Inl TypeError"

definition py_join :: "string \<Rightarrow> json \<Rightarrow> error + string" where
  "py_join sep v =
     (case py_iter v of
        Inl e \<Rightarrow> Inl e
      | Inr items \<Rightarrow> (case all_strs items of Inl e \<Rightarrow> Inl e | Inr ss \<Rightarrow> Inr (join_str sep ss)))"

text \<open>Decimal digits of an integer, as \<^verbatim>\<open>str\<close> prints it.\<close>

fun str_nat :: "nat \<Rightarrow> string" where
  "str_nat n =
     (if n < 10 then [''0123456789'' ! n]
      else str_nat (n div 10) @ [''0123456789'' ! (n mod 10)])"

definition str_int :: "int \<Rightarrow> string" where
  "str_int i = (if i < 0 then CHR ''-'' # str_nat (nat (- i)) else str_nat (nat i))"

text \<open>What an f-string puts for a value. The text of a list, a dict or a float is
  Python's \<^verbatim>\<open>repr\<close>, taken as the parameter \<open>rp\<close>.\<close>

fun py_str :: "(json \<Rightarrow> string) \<Rightarrow> json \<Rightarrow> string" where
  "py_str rp (JStr s) = s"
| "py_str rp (JInt i) = str_int i"
| "py_str rp JNull = ''None''"
| "py_str rp (JBool b) = (if b then ''True'' else ''False'')"
| "py_str rp v = rp v"

section \<open>The session record\<close>

text \<open>An entry of \<^verbatim>\<open>state.evaluations\<close>: the dict literal of \<^verbatim>\<open>evaluate_answer\<close>, which has
  these four keys and no other.\<close>

record evaluation =
  question :: string
  answer :: string
  score :: json
  reasoning :: json

record InterviewState =
  candidate_name :: string
  job_description :: string
  analyzed_requirements :: json
  generated_questions :: "string list"
  evaluations :: "evaluation list"
  final_recommendation :: "string option"

section \<open>The external collaborators\<close>

text \<open>The dicts passed to \<^verbatim>\<open>invoke\<close>, one record per chain (a key that would clash with a
  field of the session is suffixed). The \<^verbatim>\<open>format_instructions\<close> entries are constants
  of the parsers and are left out.\<close>

record q_input =
  role :: json
  tech_skills :: string
  seniority :: json
  previous_questions :: string
  focus_area :: json

record eval_input =
  question_in :: string
  answer_in :: string
  skills :: json

record rec_input =
  name_in :: string
  role_in :: json
  evaluations_in :: string

text \<open>
  Everything the program reaches outside itself: the four chains
  (\<^verbatim>\<open>prompt | llm | parser\<close>), the console read, and \<^verbatim>\<open>repr\<close>. A chain either raises or
  returns; the two JSON chains return the decoded value, the other two text. The model
  samples, so a response may differ between two calls with the same input: each
  collaborator also takes the number of external calls made before.
\<close>

record env =
  jd_agent :: "nat \<Rightarrow> string \<Rightarrow> error + json"
  q_agent :: "nat \<Rightarrow> q_input \<Rightarrow> error + string"
  py_input :: "nat \<Rightarrow> error + string"
  eval_agent :: "nat \<Rightarrow> eval_input \<Rightarrow> error + json"
  rec_agent :: "nat \<Rightarrow> rec_input \<Rightarrow> error + string"
  py_repr :: "json \<Rightarrow> string"

text \<open>The external calls of a run, in order: the session as it was when the call was
  made, what was sent, and what came back.\<close>

datatype event =
    is_JdCall: JdCall InterviewState "error + json"
  | is_QCall: QCall InterviewState q_input "error + string"
  | is_AnswerRead: AnswerRead "error + string"
  | is_EvalCall: EvalCall InterviewState eval_input "error + json"
  | is_RecCall: RecCall InterviewState rec_input "error + string"

text \<open>A stage mutates the session in place and either returns a value or raises; both
  ways the session and the calls made so far are left behind.\<close>

datatype 'a outcome =
    Return 'a InterviewState "event list"
  | Raise error InterviewState "event list"

fun out_state :: "'a outcome \<Rightarrow> InterviewState" where
  "out_state (Return v s tr) = s"
| "out_state (Raise err s tr) = s"

fun out_trace :: "'a outcome \<Rightarrow> event list" where
  "out_trace (Return v s tr) = tr"
| "out_trace (Raise err s tr) = tr"

section \<open>The four stages\<close>

definition analyze_jd :: "env \<Rightarrow> InterviewState \<Rightarrow> event list \<Rightarrow> unit outcome" where
  "analyze_jd e state tr =
     (let r = jd_agent e (length tr) (job_description state);
          tr' = tr @ [JdCall state r]
      in case r of
           Inl err \<Rightarrow> Raise err state tr'
         | Inr result \<Rightarrow>
             (let state' = state\<lparr>analyzed_requirements := result\<rparr>
              in case py_getitem result ''role_title'' of
                   Inl err \<Rightarrow> Raise err state' tr'
                 | Inr _ \<Rightarrow> Return () state' tr'))"

text \<open>The dict \<^verbatim>\<open>generate_question\<close> builds for the chain, key by key in source order.\<close>

definition q_request :: "InterviewState \<Rightarrow> json \<Rightarrow> error + q_input" where
  "q_request state topic =
     (case py_get (analyzed_requirements state) ''role_title'' JNull of
        Inl err \<Rightarrow> Inl err
      | Inr r \<Rightarrow>
     (case py_get (analyzed_requirements state) ''technical_skills'' (JList []) of
        Inl err \<Rightarrow> Inl err
      | Inr ts \<Rightarrow>
     (case py_join '', '' ts of
        Inl err \<Rightarrow> Inl err
      | Inr joined \<Rightarrow>
     (case py_get (analyzed_requirements state) ''seniority_level'' JNull of
        Inl err \<Rightarrow> Inl err
      | Inr sen \<Rightarrow>
          Inr \<lparr>role = r, tech_skills = joined, seniority = sen,
               previous_questions = join_str [CHR 0x0A] (generated_questions state),
               focus_area = topic\<rparr>))))"

definition generate_question ::
  "env \<Rightarrow> InterviewState \<Rightarrow> json \<Rightarrow> event list \<Rightarrow> string outcome" where
  "generate_question e state topic tr =
     (case q_request state topic of
        Inl err \<Rightarrow> Raise err state tr
      | Inr inp \<Rightarrow>
          (let r = q_agent e (length tr) inp;
               tr' = tr @ [QCall state inp r]
           in case r of
                Inl err \<Rightarrow> Raise err state tr'
              | Inr response \<Rightarrow>
                  Return response
                    (state\<lparr>generated_questions := generated_questions state @ [response]\<rparr>)
                    tr'))"

definition evaluate_answer ::
  "env \<Rightarrow> InterviewState \<Rightarrow> string \<Rightarrow> string \<Rightarrow> event list \<Rightarrow> json outcome" where
  "evaluate_answer e state q a tr =
     (case py_get (analyzed_requirements state) ''technical_skills'' JNull of
        Inl err \<Rightarrow> Raise err state tr
      | Inr sk \<Rightarrow>
          (let inp = \<lparr>question_in = q, answer_in = a, skills = sk\<rparr>;
               r = eval_agent e (length tr) inp;
               tr' = tr @ [EvalCall state inp r]
           in case r of
                Inl err \<Rightarrow> Raise err state tr'
              | Inr result \<Rightarrow>
                  (case py_getitem result ''score'' of
                     Inl err \<Rightarrow> Raise err state tr'
                   | Inr sc \<Rightarrow>
                  (case py_getitem result ''reasoning'' of
                     Inl err \<Rightarrow> Raise err state tr'
                   | Inr rs \<Rightarrow>
                       Return result
                         (state\<lparr>evaluations := evaluations state @
                            [\<lparr>question = q, answer = a, score = sc, reasoning = rs\<rparr>]\<rparr>)
                         tr'))))"

text \<open>The loop of \<^verbatim>\<open>generate_final_decision\<close>: \<^verbatim>\<open>eval_summary += f"Q: ...\n\n"\<close> for each
  entry of the log.\<close>

definition entry_text :: "(json \<Rightarrow> string) \<Rightarrow> evaluation \<Rightarrow> string" where
  "entry_text rp entry =
     ''Q: '' @ question entry @ [CHR 0x0A] @
     ''Score: '' @ py_str rp (score entry) @ ''/10'' @ [CHR 0x0A] @
     ''Notes: '' @ py_str rp (reasoning entry) @ [CHR 0x0A, CHR 0x0A]"

fun summary_loop :: "(json \<Rightarrow> string) \<Rightarrow> evaluation list \<Rightarrow> string \<Rightarrow> string" where
  "summary_loop rp [] eval_summary = eval_summary"
| "summary_loop rp (entry # rest) eval_summary =
     summary_loop rp rest (eval_summary @ entry_text rp entry)"

definition generate_final_decision ::
  "env \<Rightarrow> InterviewState \<Rightarrow> event list \<Rightarrow> string outcome" where
  "generate_final_decision e state tr =
     (let eval_summary = summary_loop (py_repr e) (evaluations state) []
      in case py_get (analyzed_requirements state) ''role_title'' JNull of
           Inl err \<Rightarrow> Raise err state tr
         | Inr r \<Rightarrow>
             (let inp = \<lparr>name_in = candidate_name state, role_in = r,
                         evaluations_in = eval_summary\<rparr>;
                  d = rec_agent e (length tr) inp;
                  tr' = tr @ [RecCall state inp d]
              in case d of
                   Inl err \<Rightarrow> Raise err state tr'
                 | Inr decision \<Rightarrow>
                     Return decision (state\<lparr>final_recommendation := Some decision\<rparr>) tr'))"

section \<open>The orchestrator\<close>

text \<open>The slice bound of \<^verbatim>\<open>[:2]\<close> in \<^verbatim>\<open>run_interview\<close>.\<close>

definition topic_cap :: nat where
  "topic_cap = 2"

text \<open>The body of \<^verbatim>\<open>for skill in skills\<close>, once per topic.\<close>

fun interview_loop :: "env \<Rightarrow> json list \<Rightarrow> InterviewState \<Rightarrow> event list \<Rightarrow> unit outcome" where
  "interview_loop e [] state tr = Return () state tr"
| "interview_loop e (skill # rest) state tr =
     (case generate_question e state skill tr of
        Raise err s t \<Rightarrow> Raise err s t
      | Return q s1 t1 \<Rightarrow>
          (let a = py_input e (length t1);
               t2 = t1 @ [AnswerRead a]
           in case a of
                Inl err \<Rightarrow> Raise err s1 t2
              | Inr ans \<Rightarrow>
                  (case evaluate_answer e s1 q ans t2 of
                     Raise err s t \<Rightarrow> Raise err s t
                   | Return evaluation s3 t3 \<Rightarrow>
                       (case py_getitem evaluation ''score'' of
                          Inl err \<Rightarrow> Raise err s3 t3
                        | Inr _ \<Rightarrow> interview_loop e rest s3 t3))))"

definition new_state :: "string \<Rightarrow> string \<Rightarrow> InterviewState" where
  "new_state jd_text name =
     \<lparr>candidate_name = name, job_description = jd_text,
      analyzed_requirements = JDict [], generated_questions = [],
      evaluations = [], final_recommendation = None\<rparr>"

definition select_topics :: "InterviewState \<Rightarrow> error + json list" where
  "select_topics state =
     (case py_get (analyzed_requirements state) ''technical_skills'' (JList []) of
        Inl err \<Rightarrow> Inl err
      | Inr v \<Rightarrow> (case py_slice topic_cap v of Inl err \<Rightarrow> Inl err | Inr sl \<Rightarrow> py_iter sl))"

definition run_interview :: "env \<Rightarrow> string \<Rightarrow> string \<Rightarrow> unit outcome" where
  "run_interview e jd_text name =
     (case analyze_jd e (new_state jd_text name) [] of
        Raise err s t \<Rightarrow> Raise err s t
      | Return _ s1 t1 \<Rightarrow>
          (case select_topics s1 of
             Inl err \<Rightarrow> Raise err s1 t1
           | Inr topics \<Rightarrow>
               (case interview_loop e topics s1 t1 of
                  Raise err s t \<Rightarrow> Raise err s t
                | Return _ s2 t2 \<Rightarrow>
                    (case generate_final_decision e s2 t2 of
                       Raise err s t \<Rightarrow> Raise err s t
                     | Return _ s3 t3 \<Rightarrow> Return () s3 t3))))"

section \<open>Reading a run\<close>

text \<open>How many calls of one kind a run made.\<close>

definition calls :: "(event \<Rightarrow> bool) \<Rightarrow> event list \<Rightarrow> nat" where
  "calls p tr = length (filter p tr)"

text \<open>The sessions on which the question chain was invoked, and the questions it
  returned, in order.\<close>

fun q_sessions :: "event list \<Rightarrow> InterviewState list" where
  "q_sessions [] = []"
| "q_sessions (QCall s inp r # tr) = s # q_sessions tr"
| "q_sessions (_ # tr) = q_sessions tr"

fun q_responses :: "event list \<Rightarrow> string list" where
  "q_responses [] = []"
| "q_responses (QCall s inp (Inr q) # tr) = q # q_responses tr"
| "q_responses (_ # tr) = q_responses tr"

text \<open>The schema \<^verbatim>\<open>JobAnalysis\<close>: four fields, two of text and two lists of text.\<close>

fun is_str :: "json option \<Rightarrow> bool" where
  "is_str (Some (JStr s)) = True"
| "is_str _ = False"

fun is_str_list :: "json option \<Rightarrow> bool" where
  "is_str_list (Some (JList xs)) = list_all (\<lambda>x. is_str (Some x)) xs"
| "is_str_list _ = False"

fun is_JobAnalysis :: "json \<Rightarrow> bool" where
  "is_JobAnalysis (JDict d) =
     (distinct (map fst d) \<and>
      set (map fst d) =
        {''role_title'', ''technical_skills'', ''soft_skills'', ''seniority_level''} \<and>
      is_str (map_of d ''role_title'') \<and>
      is_str_list (map_of d ''technical_skills'') \<and>
      is_str_list (map_of d ''soft_skills'') \<and>
      is_str (map_of d ''seniority_level''))"
| "is_JobAnalysis _ = False"

section \<open>A stubbed model\<close>

text \<open>The stub of the end-to-end scenario: the extraction lists the given skills, the
  question is a fixed text for each topic, every evaluation is 7 with the rationale
  ok, and the verdict is HIRE.\<close>

definition stub_requirements :: "string list \<Rightarrow> json" where
  "stub_requirements sk =
     JDict [(''role_title'', JStr ''Senior Python Developer''),
            (''technical_skills'', JList (map JStr sk)),
            (''soft_skills'', JList []),
            (''seniority_level'', JStr ''Senior'')]"

definition stub_question :: "json \<Rightarrow> string" where
  "stub_question topic = ''Tell me about '' @ py_str (\<lambda>v. []) topic"

definition stub_evaluation :: json where
  "stub_evaluation = JDict [(''score'', JInt 7), (''reasoning'', JStr ''ok'')]"

text \<open>A stub whose extraction and evaluation responses are given.\<close>

definition model_env :: "error + json \<Rightarrow> error + json \<Rightarrow> env" where
  "model_env extraction evaluation =
     \<lparr>jd_agent = (\<lambda>t jd. extraction),
      q_agent = (\<lambda>t inp. Inr (stub_question (focus_area inp))),
      py_input = (\<lambda>t. Inr ''an answer''),
      eval_agent = (\<lambda>t inp. evaluation),
      rec_agent = (\<lambda>t inp. Inr ''HIRE''),
      py_repr = (\<lambda>v. [])\<rparr>"

definition stub_env :: "string list \<Rightarrow> env" where
  "stub_env sk = model_env (Inr (stub_requirements sk)) (Inr stub_evaluation)"

text \<open>An evaluation whose score is off the scale of 1 to 10.\<close>

definition off_scale_evaluation :: json where
  "off_scale_evaluation = JDict [(''score'', JInt 42), (''reasoning'', JStr ''off the scale'')]"

text \<open>An extraction that names the role and one skill and nothing else, and one that
  names the role only.\<close>

definition partial_requirements :: json where
  "partial_requirements =
     JDict [(''role_title'', JStr ''Developer''), (''technical_skills'', JList [JStr ''Django''])]"

definition role_only_requirements :: json where
  "role_only_requirements = JDict [(''role_title'', JStr ''Developer'')]"

text \<open>A session that already holds the question the stub returns for Django.\<close>

definition asked_state :: InterviewState where
  "asked_state =
     (new_state ''a job'' ''Alex'')
       \<lparr>analyzed_requirements := stub_requirements [''Django''],
        generated_questions := [''Tell me about Django'']\<rparr>"

text \<open>The same session with its question answered and scored.\<close>

definition evaluated_state :: InterviewState where
  "evaluated_state =
     asked_state
       \<lparr>evaluations := [\<lparr>question = ''Tell me about Django'', answer = ''no idea'',
                          score = JInt 7, reasoning = JStr ''ok''\<rparr>]\<rparr>"

text \<open>The items of \<^verbatim>\<open>analyzed_requirements.get('technical_skills', [])\<close>: the extracted
  technical skills of a session.\<close>

definition technical_skills_of :: "InterviewState \<Rightarrow> error + json list" where
  "technical_skills_of state =
     (case py_get (analyzed_requirements state) ''technical_skills'' (JList []) of
        Inl err \<Rightarrow> Inl err
      | Inr v \<Rightarrow> py_iter v)"

section \<open>What a stage leaves behind\<close>

lemma generate_question_Return:
  "generate_question e s topic tr = Return q s1 t1 \<Longrightarrow>
     \<exists>inp. q_request s topic = Inr inp \<and> q_agent e (length tr) inp = Inr q \<and>
       s1 = s\<lparr>generated_questions := generated_questions s @ [q]\<rparr> \<and>
       t1 = tr @ [QCall s inp (Inr q)]"
  by (auto simp: generate_question_def Let_def split: sum.splits)

lemma generate_question_Raise:
  "generate_question e s topic tr = Raise err s1 t1 \<Longrightarrow>
     s1 = s \<and> (t1 = tr \<or> (\<exists>inp. t1 = tr @ [QCall s inp (Inl err)]))"
  by (auto simp: generate_question_def Let_def split: sum.splits)

lemma evaluate_answer_Return:
  "evaluate_answer e s q a tr = Return result s1 t1 \<Longrightarrow>
     \<exists>sk sc rs. py_get (analyzed_requirements s) ''technical_skills'' JNull = Inr sk \<and>
       eval_agent e (length tr) \<lparr>question_in = q, answer_in = a, skills = sk\<rparr> = Inr result \<and>
       py_getitem result ''score'' = Inr sc \<and> py_getitem result ''reasoning'' = Inr rs \<and>
       s1 = s\<lparr>evaluations := evaluations s @ [\<lparr>question = q, answer = a, score = sc, reasoning = rs\<rparr>]\<rparr> \<and>
       t1 = tr @ [EvalCall s \<lparr>question_in = q, answer_in = a, skills = sk\<rparr> (Inr result)]"
  by (auto simp: evaluate_answer_def Let_def split: sum.splits)

lemma evaluate_answer_Raise:
  "evaluate_answer e s q a tr = Raise err s1 t1 \<Longrightarrow>
     s1 = s \<and> (t1 = tr \<or> (\<exists>inp r. t1 = tr @ [EvalCall s inp r]))"
  by (auto simp: evaluate_answer_def Let_def split: sum.splits)

text \<open>One turn of the loop that goes through.\<close>

lemma interview_loop_Cons_Return:
  assumes "interview_loop e (topic # rest) s tr = Return v s' tr'"
  shows "\<exists>inp q a sk result sc rs.
     q_request s topic = Inr inp \<and> q_agent e (length tr) inp = Inr q \<and>
     py_input e (Suc (length tr)) = Inr a \<and>
     py_get (analyzed_requirements s) ''technical_skills'' JNull = Inr sk \<and>
     eval_agent e (Suc (Suc (length tr))) \<lparr>question_in = q, answer_in = a, skills = sk\<rparr> = Inr result \<and>
     py_getitem result ''score'' = Inr sc \<and> py_getitem result ''reasoning'' = Inr rs \<and>
     interview_loop e rest
       (s\<lparr>generated_questions := generated_questions s @ [q],
          evaluations := evaluations s @ [\<lparr>question = q, answer = a, score = sc, reasoning = rs\<rparr>]\<rparr>)
       (tr @ [QCall s inp (Inr q), AnswerRead (Inr a),
              EvalCall (s\<lparr>generated_questions := generated_questions s @ [q]\<rparr>)
                \<lparr>question_in = q, answer_in = a, skills = sk\<rparr> (Inr result)])
       = Return v s' tr'"
  using assms
  by (auto simp: Let_def split: outcome.splits sum.splits
      dest!: generate_question_Return evaluate_answer_Return)

lemma calls_append: "calls p (xs @ ys) = calls p xs + calls p ys"
  by (simp add: calls_def)

lemma loop_Return_calls:
  "interview_loop e topics s tr = Return v s' tr' \<Longrightarrow>
     calls is_QCall tr' = calls is_QCall tr + length topics \<and>
     calls is_AnswerRead tr' = calls is_AnswerRead tr + length topics \<and>
     calls is_EvalCall tr' = calls is_EvalCall tr + length topics"
proof (induction topics arbitrary: s tr)
  case Nil
  then show ?case by simp
next
  case (Cons topic rest)
  from interview_loop_Cons_Return [OF Cons.prems] obtain s1 t1 evs where
    step: "interview_loop e rest s1 t1 = Return v s' tr'" and
    t1: "t1 = tr @ evs" "calls is_QCall evs = 1" "calls is_AnswerRead evs = 1" "calls is_EvalCall evs = 1"
    by (fastforce simp: calls_def)
  from Cons.IH [OF step] t1 show ?case
    by (simp add: calls_append)
qed


lemma generate_final_decision_Return:
  "generate_final_decision e s tr = Return d s1 t1 \<Longrightarrow>
     \<exists>r. py_get (analyzed_requirements s) ''role_title'' JNull = Inr r \<and>
       rec_agent e (length tr)
         \<lparr>name_in = candidate_name s, role_in = r,
          evaluations_in = summary_loop (py_repr e) (evaluations s) []\<rparr> = Inr d \<and>
       s1 = s\<lparr>final_recommendation := Some d\<rparr> \<and>
       t1 = tr @ [RecCall s \<lparr>name_in = candidate_name s, role_in = r,
          evaluations_in = summary_loop (py_repr e) (evaluations s) []\<rparr> (Inr d)]"
  by (auto simp: generate_final_decision_def Let_def split: sum.splits)

lemma generate_final_decision_Raise:
  "generate_final_decision e s tr = Raise err s1 t1 \<Longrightarrow>
     s1 = s \<and> (t1 = tr \<or> (\<exists>inp. t1 = tr @ [RecCall s inp (Inl err)]))"
  by (auto simp: generate_final_decision_def Let_def split: sum.splits)

text \<open>A property of the session and the calls that every step of a turn keeps holds of
  whatever the loop leaves behind, returned or raised.\<close>

lemma interview_loop_invariant:
  assumes init: "I s tr"
    and gq: "\<And>s tr topic. I s tr \<Longrightarrow>
       I (out_state (generate_question e s topic tr)) (out_trace (generate_question e s topic tr))"
    and rd: "\<And>s tr r. I s tr \<Longrightarrow> I s (tr @ [AnswerRead r])"
    and ev: "\<And>s tr q a. I s tr \<Longrightarrow>
       I (out_state (evaluate_answer e s q a tr)) (out_trace (evaluate_answer e s q a tr))"
  shows "I (out_state (interview_loop e topics s tr)) (out_trace (interview_loop e topics s tr))"
  using init
proof (induction topics arbitrary: s tr)
  case Nil
  then show ?case by simp
next
  case (Cons topic rest)
  show ?case
  proof (cases "generate_question e s topic tr")
    case (Raise err s1 t1)
    with gq [OF Cons.prems, of topic] show ?thesis by simp
  next
    case (Return q s1 t1)
    with gq [OF Cons.prems, of topic] have i1: "I s1 t1" by simp
    show ?thesis
    proof (cases "py_input e (length t1)")
      case (Inl err)
      with Return rd [OF i1, of "Inl err"] show ?thesis by (simp add: Let_def)
    next
      case (Inr ans)
      from rd [OF i1, of "Inr ans"] have i2: "I s1 (t1 @ [AnswerRead (Inr ans)])" .
      show ?thesis
      proof (cases "evaluate_answer e s1 q ans (t1 @ [AnswerRead (Inr ans)])")
        case (Raise err s3 t3)
        with ev [OF i2, of q ans] Return Inr show ?thesis by (simp add: Let_def)
      next
        case ret: (Return result s3 t3)
        with ev [OF i2, of q ans] have i3: "I s3 t3" by simp
        show ?thesis
        proof (cases "py_getitem result ''score''")
          case (Inl err)
          with Return Inr ret i3 show ?thesis by (simp add: Let_def)
        next
          case sc: (Inr x)
          with Return Inr ret Cons.IH [OF i3] show ?thesis by (simp add: Let_def)
        qed
      qed
    qed
  qed
qed

lemma interview_loop_frame:
  "candidate_name (out_state (interview_loop e topics s tr)) = candidate_name s \<and>
   job_description (out_state (interview_loop e topics s tr)) = job_description s \<and>
   analyzed_requirements (out_state (interview_loop e topics s tr)) = analyzed_requirements s \<and>
   final_recommendation (out_state (interview_loop e topics s tr)) = final_recommendation s"
proof -
  let ?I = "\<lambda>(x::InterviewState) (t::event list). candidate_name x = candidate_name s \<and>
    job_description x = job_description s \<and> analyzed_requirements x = analyzed_requirements s \<and>
    final_recommendation x = final_recommendation s"
  have "?I (out_state (interview_loop e topics s tr)) (out_trace (interview_loop e topics s tr))"
  proof (rule interview_loop_invariant [where I = ?I])
    show "?I s tr" by simp
  next
    fix x :: InterviewState and t topic
    assume "?I x t"
    then show "?I (out_state (generate_question e x topic t))
                  (out_trace (generate_question e x topic t))"
      by (cases "generate_question e x topic t")
        (auto dest!: generate_question_Return generate_question_Raise)
  next
    fix x :: InterviewState and t r
    assume "?I x t"
    then show "?I x (t @ [AnswerRead r])" by simp
  next
    fix x :: InterviewState and t q a
    assume "?I x t"
    then show "?I (out_state (evaluate_answer e x q a t)) (out_trace (evaluate_answer e x q a t))"
      by (cases "evaluate_answer e x q a t")
        (auto dest!: evaluate_answer_Return evaluate_answer_Raise)
  qed
  then show ?thesis by simp
qed

text \<open>The two lists only grow, and the questions of the evaluations stay a prefix of the
  questions generated.\<close>

lemma interview_loop_grows:
  "prefix (generated_questions s) (generated_questions (out_state (interview_loop e topics s tr))) \<and>
   prefix (evaluations s) (evaluations (out_state (interview_loop e topics s tr))) \<and>
   prefix tr (out_trace (interview_loop e topics s tr))"
proof -
  let ?I = "\<lambda>(x::InterviewState) (t::event list). prefix (generated_questions s) (generated_questions x) \<and>
    prefix (evaluations s) (evaluations x) \<and> prefix tr t"
  have "?I (out_state (interview_loop e topics s tr)) (out_trace (interview_loop e topics s tr))"
  proof (rule interview_loop_invariant [where I = ?I])
    show "?I s tr" by simp
  next
    fix x :: InterviewState and t topic
    assume "?I x t"
    then show "?I (out_state (generate_question e x topic t))
                  (out_trace (generate_question e x topic t))"
      by (cases "generate_question e x topic t")
        (auto dest!: generate_question_Return generate_question_Raise intro: prefix_order.trans)
  next
    fix x :: InterviewState and t r
    assume "?I x t"
    then show "?I x (t @ [AnswerRead r])" by (auto intro: prefix_order.trans)
  next
    fix x :: InterviewState and t q a
    assume "?I x t"
    then show "?I (out_state (evaluate_answer e x q a t)) (out_trace (evaluate_answer e x q a t))"
      by (cases "evaluate_answer e x q a t")
        (auto dest!: evaluate_answer_Return evaluate_answer_Raise intro: prefix_order.trans)
  qed
  then show ?thesis by simp
qed

lemma q_sessions_append: "q_sessions (xs @ ys) = q_sessions xs @ q_sessions ys"
  by (induction xs rule: q_sessions.induct) simp_all

lemma q_responses_append: "q_responses (xs @ ys) = q_responses xs @ q_responses ys"
  by (induction xs rule: q_responses.induct) simp_all

lemma interview_loop_q_sessions:
  assumes "list_all (\<lambda>x. analyzed_requirements x = analyzed_requirements s) (q_sessions tr)"
  shows "list_all (\<lambda>x. analyzed_requirements x = analyzed_requirements s)
           (q_sessions (out_trace (interview_loop e topics s tr)))"
proof -
  let ?I = "\<lambda>(x::InterviewState) (t::event list). analyzed_requirements x = analyzed_requirements s \<and>
    list_all (\<lambda>x. analyzed_requirements x = analyzed_requirements s) (q_sessions t)"
  have "?I (out_state (interview_loop e topics s tr)) (out_trace (interview_loop e topics s tr))"
  proof (rule interview_loop_invariant [where I = ?I])
    show "?I s tr" using assms by simp
  next
    fix x :: InterviewState and t topic
    assume "?I x t"
    then show "?I (out_state (generate_question e x topic t))
                  (out_trace (generate_question e x topic t))"
      by (cases "generate_question e x topic t")
        (auto simp: q_sessions_append dest!: generate_question_Return generate_question_Raise)
  next
    fix x :: InterviewState and t r
    assume "?I x t"
    then show "?I x (t @ [AnswerRead r])" by (simp add: q_sessions_append)
  next
    fix x :: InterviewState and t q a
    assume "?I x t"
    then show "?I (out_state (evaluate_answer e x q a t)) (out_trace (evaluate_answer e x q a t))"
      by (cases "evaluate_answer e x q a t")
        (auto simp: q_sessions_append dest!: evaluate_answer_Return evaluate_answer_Raise)
  qed
  then show ?thesis by simp
qed

lemmas stage_defs = analyze_jd_def generate_question_def q_request_def py_join_def
  evaluate_answer_def generate_final_decision_def entry_text_def select_topics_def
  topic_cap_def new_state_def Let_def

lemmas stub_defs = model_env_def stub_env_def stub_requirements_def stub_question_def
  stub_evaluation_def

lemma select_topics_take:
  "select_topics s = Inr topics \<Longrightarrow>
     \<exists>items. technical_skills_of s = Inr items \<and> topics = take topic_cap items"
  unfolding select_topics_def technical_skills_of_def
  by (cases "py_get (analyzed_requirements s) ''technical_skills'' (JList [])")
     (auto simp: take_map split: sum.splits elim!: py_slice.elims)

lemma run_interview_Return:
  assumes "run_interview e jd_text name = Return v s tr"
  shows "\<exists>s1 t1 topics s2 t2 d.
     analyze_jd e (new_state jd_text name) [] = Return () s1 t1 \<and>
     select_topics s1 = Inr topics \<and>
     interview_loop e topics s1 t1 = Return () s2 t2 \<and>
     generate_final_decision e s2 t2 = Return d s tr"
  using assms unfolding run_interview_def
  by (auto split: outcome.splits sum.splits)

lemma analyze_jd_Return:
  "analyze_jd e s tr = Return v s1 t1 \<Longrightarrow>
     \<exists>r x. jd_agent e (length tr) (job_description s) = Inr r \<and>
       py_getitem r ''role_title'' = Inr x \<and>
       s1 = s\<lparr>analyzed_requirements := r\<rparr> \<and> t1 = tr @ [JdCall s (Inr r)]"
  by (auto simp: analyze_jd_def Let_def split: sum.splits)

lemma analyze_jd_Raise:
  "analyze_jd e s tr = Raise err s1 t1 \<Longrightarrow>
     t1 = tr @ [JdCall s (jd_agent e (length tr) (job_description s))] \<and>
     (s1 = s \<or> (\<exists>r. s1 = s\<lparr>analyzed_requirements := r\<rparr>))"
  by (auto simp: analyze_jd_def Let_def split: sum.splits)

section \<open>The number of cycles\<close>

text \<open>
  C1. A run that goes through makes as many question/answer/evaluation cycles as the
  smaller of the cap and the number of extracted technical skills: that many calls of
  the question chain, that many answers read and that many calls of the evaluation
  chain. With the cap of 2 and five skills it makes two.
\<close>

theorem run_interview_cycles:
  assumes "run_interview e jd_text name = Return v s tr"
  shows "\<exists>items. technical_skills_of s = Inr items \<and>
     calls is_QCall tr = min topic_cap (length items) \<and>
     calls is_AnswerRead tr = min topic_cap (length items) \<and>
     calls is_EvalCall tr = min topic_cap (length items)"
proof -
  from run_interview_Return [OF assms] obtain s1 t1 topics s2 t2 d where
    an: "analyze_jd e (new_state jd_text name) [] = Return () s1 t1" and
    sel: "select_topics s1 = Inr topics" and
    lp: "interview_loop e topics s1 t1 = Return () s2 t2" and
    fin: "generate_final_decision e s2 t2 = Return d s tr"
    by blast
  from analyze_jd_Return [OF an] have t1: "calls is_QCall t1 = 0" "calls is_AnswerRead t1 = 0"
    "calls is_EvalCall t1 = 0"
    by (auto simp: calls_def)
  from select_topics_take [OF sel] obtain items where
    items: "technical_skills_of s1 = Inr items" "topics = take topic_cap items"
    by blast
  from interview_loop_frame [of e topics s1 t1] lp
  have "analyzed_requirements s2 = analyzed_requirements s1" by simp
  with generate_final_decision_Return [OF fin]
  have "analyzed_requirements s = analyzed_requirements s1" by auto
  then have sk: "technical_skills_of s = Inr items"
    using items(1) by (simp add: technical_skills_of_def)
  from generate_final_decision_Return [OF fin] have tr: "\<exists>ev. tr = t2 @ [ev] \<and> is_RecCall ev"
    by auto
  from loop_Return_calls [OF lp] t1 tr items(2) sk show ?thesis
    by (auto simp: calls_append calls_def)
qed

lemma five_run:
  "\<exists>s tr. run_interview (stub_env [''Django'', ''Azure'', ''REST'', ''LangChain'', ''Agents''])
        ''Senior Python Developer wanted'' ''Alex Developer'' = Return () s tr \<and>
     technical_skills_of s =
       Inr (map JStr [''Django'', ''Azure'', ''REST'', ''LangChain'', ''Agents''])"
  by (simp add: run_interview_def stage_defs stub_defs technical_skills_of_def)

theorem run_interview_cycles_witness:
  "\<exists>s tr. run_interview (stub_env [''Django'', ''Azure'', ''REST'', ''LangChain'', ''Agents''])
        ''Senior Python Developer wanted'' ''Alex Developer'' = Return () s tr \<and>
     calls is_QCall tr = 2 \<and> calls is_AnswerRead tr = 2 \<and> calls is_EvalCall tr = 2"
proof -
  from five_run obtain s tr where
    run: "run_interview (stub_env [''Django'', ''Azure'', ''REST'', ''LangChain'', ''Agents''])
        ''Senior Python Developer wanted'' ''Alex Developer'' = Return () s tr" and
    sk: "technical_skills_of s =
       Inr (map JStr [''Django'', ''Azure'', ''REST'', ''LangChain'', ''Agents''])"
    by blast
  from run_interview_cycles [OF run] sk show ?thesis
    using run by (auto simp: topic_cap_def)
qed

section \<open>The evaluation log and the questions\<close>

lemma loop_Return_aligned:
  "interview_loop e topics s tr = Return v s' tr' \<Longrightarrow>
     \<exists>es evs. generated_questions s' = generated_questions s @ map question es \<and>
       evaluations s' = evaluations s @ es \<and> length es = length topics \<and>
       tr' = tr @ evs \<and> q_responses evs = map question es"
proof (induction topics arbitrary: s tr)
  case Nil
  then show ?case by simp
next
  case (Cons topic rest)
  from interview_loop_Cons_Return [OF Cons.prems] obtain inp q a sk result sc rs where
    step: "interview_loop e rest
       (s\<lparr>generated_questions := generated_questions s @ [q],
          evaluations := evaluations s @ [\<lparr>question = q, answer = a, score = sc, reasoning = rs\<rparr>]\<rparr>)
       (tr @ [QCall s inp (Inr q), AnswerRead (Inr a),
              EvalCall (s\<lparr>generated_questions := generated_questions s @ [q]\<rparr>)
                \<lparr>question_in = q, answer_in = a, skills = sk\<rparr> (Inr result)])
       = Return v s' tr'"
    by blast
  from Cons.IH [OF step] obtain es evs where
    r: "generated_questions s' = (generated_questions s @ [q]) @ map question es"
       "evaluations s' =
          (evaluations s @ [\<lparr>question = q, answer = a, score = sc, reasoning = rs\<rparr>]) @ es"
       "length es = length rest"
       "tr' = (tr @ [QCall s inp (Inr q), AnswerRead (Inr a),
              EvalCall (s\<lparr>generated_questions := generated_questions s @ [q]\<rparr>)
                \<lparr>question_in = q, answer_in = a, skills = sk\<rparr> (Inr result)]) @ evs"
       "q_responses evs = map question es"
    by auto
  show ?case
  proof (intro exI conjI)
    show "generated_questions s' = generated_questions s @
        map question (\<lparr>question = q, answer = a, score = sc, reasoning = rs\<rparr> # es)"
      using r(1) by simp
    show "evaluations s' = evaluations s @
        (\<lparr>question = q, answer = a, score = sc, reasoning = rs\<rparr> # es)"
      using r(2) by simp
    show "length (\<lparr>question = q, answer = a, score = sc, reasoning = rs\<rparr> # es) =
        length (topic # rest)"
      using r(3) by simp
    show "tr' = tr @ ([QCall s inp (Inr q), AnswerRead (Inr a),
              EvalCall (s\<lparr>generated_questions := generated_questions s @ [q]\<rparr>)
                \<lparr>question_in = q, answer_in = a, skills = sk\<rparr> (Inr result)] @ evs)"
      using r(4) by simp
    show "q_responses ([QCall s inp (Inr q), AnswerRead (Inr a),
              EvalCall (s\<lparr>generated_questions := generated_questions s @ [q]\<rparr>)
                \<lparr>question_in = q, answer_in = a, skills = sk\<rparr> (Inr result)] @ evs) =
          map question (\<lparr>question = q, answer = a, score = sc, reasoning = rs\<rparr> # es)"
      using r(5) by simp
  qed
qed

text \<open>
  C2. After the loop has gone through N topics on a session that had no question and
  no evaluation yet, the evaluation log has exactly N entries, the question chain has
  returned N questions, and the question of the i-th entry is the i-th question
  returned, which is also the i-th stored question.
\<close>

theorem evaluations_aligned:
  assumes "interview_loop e topics s tr = Return v s' tr'"
    and "generated_questions s = []" and "evaluations s = []"
  shows "length (evaluations s') = length topics \<and>
         length (q_responses (drop (length tr) tr')) = length topics \<and>
         (\<forall>i < length topics.
            question (evaluations s' ! i) = q_responses (drop (length tr) tr') ! i \<and>
            question (evaluations s' ! i) = generated_questions s' ! i)"
proof -
  from loop_Return_aligned [OF assms(1)] assms(2,3) obtain es evs where
    r: "generated_questions s' = map question es" "evaluations s' = es"
       "length es = length topics" "tr' = tr @ evs" "q_responses evs = map question es"
    by auto
  then show ?thesis by simp
qed

lemma two_turns:
  "\<exists>s' tr'. interview_loop (stub_env [''Django'', ''Azure'']) [JStr ''Django'', JStr ''Azure'']
       ((new_state ''jd'' ''Alex'')\<lparr>analyzed_requirements :=
          stub_requirements [''Django'', ''Azure'']\<rparr>)
       [JdCall (new_state ''jd'' ''Alex'') (Inr (stub_requirements [''Django'', ''Azure'']))]
     = Return () s' tr' \<and>
     map question (evaluations s') = [''Tell me about Django'', ''Tell me about Azure''] \<and>
     q_responses (drop 1 tr') = [''Tell me about Django'', ''Tell me about Azure'']"
  by (simp add: stage_defs stub_defs)

theorem evaluations_aligned_witness:
  "\<exists>s' tr'. interview_loop (stub_env [''Django'', ''Azure'']) [JStr ''Django'', JStr ''Azure'']
       ((new_state ''jd'' ''Alex'')\<lparr>analyzed_requirements :=
          stub_requirements [''Django'', ''Azure'']\<rparr>)
       [JdCall (new_state ''jd'' ''Alex'') (Inr (stub_requirements [''Django'', ''Azure'']))]
     = Return () s' tr' \<and>
     length (evaluations s') = 2 \<and>
     question (evaluations s' ! 0) = ''Tell me about Django'' \<and>
     question (evaluations s' ! 1) = ''Tell me about Azure'' \<and>
     q_responses (drop 1 tr') = [''Tell me about Django'', ''Tell me about Azure'']"
proof -
  from two_turns obtain s' tr' where
    run: "interview_loop (stub_env [''Django'', ''Azure'']) [JStr ''Django'', JStr ''Azure'']
       ((new_state ''jd'' ''Alex'')\<lparr>analyzed_requirements :=
          stub_requirements [''Django'', ''Azure'']\<rparr>)
       [JdCall (new_state ''jd'' ''Alex'') (Inr (stub_requirements [''Django'', ''Azure'']))]
     = Return () s' tr'" and
    q: "q_responses (drop 1 tr') = [''Tell me about Django'', ''Tell me about Azure'']"
    by blast
  have fresh: "generated_questions ((new_state ''jd'' ''Alex'')\<lparr>analyzed_requirements :=
          stub_requirements [''Django'', ''Azure'']\<rparr>) = []"
    "evaluations ((new_state ''jd'' ''Alex'')\<lparr>analyzed_requirements :=
          stub_requirements [''Django'', ''Azure'']\<rparr>) = []"
    by (simp_all add: new_state_def)
  from evaluations_aligned [OF run fresh] q have
    "length (evaluations s') = 2"
    "question (evaluations s' ! 0) = ''Tell me about Django''"
    "question (evaluations s' ! 1) = ''Tell me about Azure''"
    by simp_all
  with run q show ?thesis by blast
qed

section \<open>The end-to-end scenario\<close>

text \<open>
  C3. The end-to-end scenario. With a model that extracts the role Senior Python
  Developer and the skills Django and Azure, returns a fixed question for each topic,
  scores every answer 7 with the rationale ok and gives the verdict HIRE, whatever the
  candidate answers, the run goes through and leaves exactly two evaluations, for
  Django and for Azure in this order, each with score 7, and the recommendation HIRE.
\<close>

theorem end_to_end:
  assumes jd: "jd_agent e 0 jd_text = Inr (stub_requirements [''Django'', ''Azure''])"
    and q: "\<And>t inp. q_agent e t inp = Inr (qtext (focus_area inp))"
    and a: "\<And>t. py_input e t = Inr (ans t)"
    and ev: "\<And>t inp. eval_agent e t inp = Inr stub_evaluation"
    and r: "\<And>t inp. rec_agent e t inp = Inr ''HIRE''"
  shows "\<exists>s tr. run_interview e jd_text name = Return () s tr \<and>
     evaluations s =
       [\<lparr>question = qtext (JStr ''Django''), answer = ans 2, score = JInt 7, reasoning = JStr ''ok''\<rparr>,
        \<lparr>question = qtext (JStr ''Azure''), answer = ans 5, score = JInt 7, reasoning = JStr ''ok''\<rparr>] \<and>
     final_recommendation s = Some ''HIRE''"
  by (simp add: run_interview_def stage_defs stub_defs jd q a ev r eval_nat_numeral)

theorem end_to_end_witness:
  "\<exists>s tr. run_interview (stub_env [''Django'', ''Azure''])
       ''Senior Python Developer, skills: Django, Azure'' ''Alex Developer'' = Return () s tr \<and>
     evaluations s =
       [\<lparr>question = ''Tell me about Django'', answer = ''an answer'', score = JInt 7,
         reasoning = JStr ''ok''\<rparr>,
        \<lparr>question = ''Tell me about Azure'', answer = ''an answer'', score = JInt 7,
         reasoning = JStr ''ok''\<rparr>] \<and>
     final_recommendation s = Some ''HIRE''"
  using end_to_end [of "stub_env [''Django'', ''Azure'']"
      "''Senior Python Developer, skills: Django, Azure''" stub_question "\<lambda>t. ''an answer''"
      "''Alex Developer''"]
  by (simp add: stub_defs)

section \<open>The extractor\<close>

lemma new_state_fields:
  "candidate_name (new_state jd_text name) = name"
  "job_description (new_state jd_text name) = jd_text"
  "analyzed_requirements (new_state jd_text name) = JDict []"
  "generated_questions (new_state jd_text name) = []"
  "evaluations (new_state jd_text name) = []"
  "final_recommendation (new_state jd_text name) = None"
  by (simp_all add: new_state_def)

lemma analyze_jd_Inl:
  "jd_agent e (length tr) (job_description s) = Inl err \<Longrightarrow>
     analyze_jd e s tr = Raise err s (tr @ [JdCall s (Inl err)])"
  by (simp add: analyze_jd_def)

lemma analyze_jd_no_role:
  "jd_agent e (length tr) (job_description s) = Inr v \<Longrightarrow>
   py_getitem v ''role_title'' = Inl err \<Longrightarrow>
     analyze_jd e s tr = Raise err (s\<lparr>analyzed_requirements := v\<rparr>) (tr @ [JdCall s (Inr v)])"
  by (simp add: analyze_jd_def)

lemma analyze_jd_role:
  "jd_agent e (length tr) (job_description s) = Inr v \<Longrightarrow>
   py_getitem v ''role_title'' = Inr x \<Longrightarrow>
     analyze_jd e s tr = Return () (s\<lparr>analyzed_requirements := v\<rparr>) (tr @ [JdCall s (Inr v)])"
  by (simp add: analyze_jd_def)

lemma run_interview_analyze_Raise:
  "analyze_jd e (new_state jd_text name) [] = Raise err s t \<Longrightarrow>
     run_interview e jd_text name = Raise err s t"
  by (simp add: run_interview_def)

lemma is_str_Some: "is_str v \<Longrightarrow> \<exists>s. v = Some (JStr s)"
  by (cases v rule: is_str.cases) simp_all

lemma is_JobAnalysis_role:
  assumes "is_JobAnalysis reqs"
  shows "\<exists>x. py_getitem reqs ''role_title'' = Inr x"
proof (cases reqs)
  case (JDict d)
  with assms have "is_str (map_of d ''role_title'')"
    by (simp only: is_JobAnalysis.simps)
  from is_str_Some [OF this] JDict show ?thesis by auto
qed (use assms in simp_all)

text \<open>
  C4, as the code has it. When the extraction chain raises, or returns a value whose
  \<open>role_title\<close> cannot be read (not an object, or an object without the key),
  \<^verbatim>\<open>analyze_jd\<close> raises that error and \<^verbatim>\<open>run_interview\<close> raises it to its caller. The
  extraction call is the only external call of the run: no second attempt, no
  substitute value, no question generated.
\<close>

theorem analyze_jd_raises:
  assumes "jd_agent e 0 jd_text = Inl err \<or>
     (\<exists>v. jd_agent e 0 jd_text = Inr v \<and> py_getitem v ''role_title'' = Inl err)"
  shows "(\<exists>s'. analyze_jd e (new_state jd_text name) [] =
            Raise err s' [JdCall (new_state jd_text name) (jd_agent e 0 jd_text)]) \<and>
         (\<exists>s'. run_interview e jd_text name =
            Raise err s' [JdCall (new_state jd_text name) (jd_agent e 0 jd_text)]) \<and>
         calls is_JdCall (out_trace (run_interview e jd_text name)) = 1 \<and>
         calls is_QCall (out_trace (run_interview e jd_text name)) = 0"
proof -
  have "\<exists>s'. analyze_jd e (new_state jd_text name) [] =
            Raise err s' [JdCall (new_state jd_text name) (jd_agent e 0 jd_text)]"
    using assms
      analyze_jd_Inl [of e "[]" "new_state jd_text name" err]
      analyze_jd_no_role [of e "[]" "new_state jd_text name" _ err]
    by (auto simp: new_state_fields)
  then obtain s' where an: "analyze_jd e (new_state jd_text name) [] =
            Raise err s' [JdCall (new_state jd_text name) (jd_agent e 0 jd_text)]"
    by blast
  from run_interview_analyze_Raise [OF an] an show ?thesis
    by (simp add: calls_def)
qed

lemma run_interview_q_sessions:
  "list_all (\<lambda>x. jd_agent e 0 jd_text = Inr (analyzed_requirements x) \<and>
              (\<exists>v. py_getitem (analyzed_requirements x) ''role_title'' = Inr v))
     (q_sessions (out_trace (run_interview e jd_text name)))"
proof (cases "analyze_jd e (new_state jd_text name) []")
  case (Raise err s1 t1)
  with analyze_jd_Raise [OF Raise] show ?thesis
    by (simp add: run_interview_def)
next
  case (Return u s1 t1)
  from analyze_jd_Return [OF Return] obtain r x where
    r: "jd_agent e 0 jd_text = Inr r" "py_getitem r ''role_title'' = Inr x"
       "s1 = (new_state jd_text name)\<lparr>analyzed_requirements := r\<rparr>"
       "t1 = [JdCall (new_state jd_text name) (Inr r)]"
    by (auto simp: new_state_def)
  let ?P = "\<lambda>x. jd_agent e 0 jd_text = Inr (analyzed_requirements x) \<and>
              (\<exists>v. py_getitem (analyzed_requirements x) ''role_title'' = Inr v)"
  have eq: "?P = (\<lambda>x. analyzed_requirements x = analyzed_requirements s1)"
    using r by auto
  show ?thesis
  proof (cases "select_topics s1")
    case (Inl err)
    with Return r show ?thesis by (simp add: run_interview_def)
  next
    case (Inr topics)
    have "list_all (\<lambda>x. analyzed_requirements x = analyzed_requirements s1) (q_sessions t1)"
      using r by simp
    from interview_loop_q_sessions [OF this, of e topics]
    have lp: "list_all ?P (q_sessions (out_trace (interview_loop e topics s1 t1)))"
      by (simp add: eq)
    show ?thesis
    proof (cases "interview_loop e topics s1 t1")
      case (Raise err s2 t2)
      with Return Inr lp show ?thesis by (simp add: run_interview_def)
    next
      case lret: (Return u2 s2 t2)
      with lp have t2: "list_all ?P (q_sessions t2)" by simp
      show ?thesis
      proof (cases "generate_final_decision e s2 t2")
        case (Raise err s3 t3)
        with generate_final_decision_Raise [OF Raise] Return Inr lret t2 show ?thesis
          by (auto simp: run_interview_def q_sessions_append)
      next
        case fret: (Return d s3 t3)
        with generate_final_decision_Return [OF fret] Return Inr lret t2 show ?thesis
          by (auto simp: run_interview_def q_sessions_append)
      qed
    qed
  qed
qed

text \<open>
  A chain that raises \<^verbatim>\<open>OutputParserException\<close>.
\<close>

theorem analyze_jd_raises_witness:
  "(\<exists>s'. analyze_jd (model_env (Inl (Raised ''OutputParserException'')) (Inr stub_evaluation))
            (new_state ''a job'' ''Alex'') [] =
          Raise (Raised ''OutputParserException'') s'
            [JdCall (new_state ''a job'' ''Alex'') (Inl (Raised ''OutputParserException''))]) \<and>
   (\<exists>s'. run_interview (model_env (Inl (Raised ''OutputParserException'')) (Inr stub_evaluation))
            ''a job'' ''Alex'' =
          Raise (Raised ''OutputParserException'') s'
            [JdCall (new_state ''a job'' ''Alex'') (Inl (Raised ''OutputParserException''))]) \<and>
   calls is_QCall (out_trace (run_interview
      (model_env (Inl (Raised ''OutputParserException'')) (Inr stub_evaluation))
      ''a job'' ''Alex'')) = 0"
  using analyze_jd_raises [of "model_env (Inl (Raised ''OutputParserException'')) (Inr stub_evaluation)"
      "''a job''" "Raised ''OutputParserException''" "''Alex''"]
  by (simp add: model_env_def)

text \<open>
  C4 as stated fails. A decoded object with a role title and one technical skill but
  neither soft skills nor a seniority level does not fit the four-field schema, yet
  \<^verbatim>\<open>analyze_jd\<close> returns and the run goes on to generate a question.
\<close>

theorem partial_requirements_accepted:
  "\<not> is_JobAnalysis partial_requirements \<and>
   analyze_jd (model_env (Inr partial_requirements) (Inr stub_evaluation))
       (new_state ''a job'' ''Alex'') [] =
     Return () ((new_state ''a job'' ''Alex'')\<lparr>analyzed_requirements := partial_requirements\<rparr>)
       [JdCall (new_state ''a job'' ''Alex'') (Inr partial_requirements)] \<and>
   calls is_QCall (out_trace (run_interview
       (model_env (Inr partial_requirements) (Inr stub_evaluation)) ''a job'' ''Alex'')) = 1"
  by (simp add: run_interview_def stage_defs stub_defs partial_requirements_def calls_def)

text \<open>
  C5. When the extraction returns an object with exactly the four fields of the
  schema, \<^verbatim>\<open>analyze_jd\<close> stores it as it is, and every call of the question chain is made
  on a session that holds it. Whatever the extraction returns, no call of the question
  chain is made on a session whose requirements are still the empty dict of a new
  session.
\<close>

theorem requirements_before_questions:
  "(jd_agent e 0 jd_text = Inr reqs \<and> is_JobAnalysis reqs \<longrightarrow>
      analyze_jd e (new_state jd_text name) [] =
        Return () ((new_state jd_text name)\<lparr>analyzed_requirements := reqs\<rparr>)
          [JdCall (new_state jd_text name) (Inr reqs)] \<and>
      list_all (\<lambda>x. analyzed_requirements x = reqs \<and> is_JobAnalysis (analyzed_requirements x))
        (q_sessions (out_trace (run_interview e jd_text name)))) \<and>
   list_all (\<lambda>x. analyzed_requirements x \<noteq> JDict [])
     (q_sessions (out_trace (run_interview e jd_text name)))"
proof (intro conjI impI)
  assume a: "jd_agent e 0 jd_text = Inr reqs \<and> is_JobAnalysis reqs"
  with is_JobAnalysis_role [of reqs] obtain x where "py_getitem reqs ''role_title'' = Inr x"
    by blast
  with a analyze_jd_role [of e "[]" "new_state jd_text name" reqs x]
  show "analyze_jd e (new_state jd_text name) [] =
        Return () ((new_state jd_text name)\<lparr>analyzed_requirements := reqs\<rparr>)
          [JdCall (new_state jd_text name) (Inr reqs)]"
    by (simp add: new_state_fields)
  from a show "list_all (\<lambda>x. analyzed_requirements x = reqs \<and> is_JobAnalysis (analyzed_requirements x))
        (q_sessions (out_trace (run_interview e jd_text name)))"
    using run_interview_q_sessions [of e jd_text name]
    by (auto simp: list_all_iff)
next
  show "list_all (\<lambda>x. analyzed_requirements x \<noteq> JDict [])
     (q_sessions (out_trace (run_interview e jd_text name)))"
    using run_interview_q_sessions [of e jd_text name]
    by (auto simp: list_all_iff)
qed

lemma stub_is_JobAnalysis: "is_JobAnalysis (stub_requirements [''Django'', ''Azure''])"
  by (auto simp: stub_requirements_def)

lemma stub_q_sessions:
  "length (q_sessions (out_trace (run_interview (stub_env [''Django'', ''Azure''])
       ''a job'' ''Alex''))) = 2"
  by (simp add: run_interview_def stage_defs stub_defs)

theorem requirements_before_questions_witness:
  "analyze_jd (stub_env [''Django'', ''Azure'']) (new_state ''a job'' ''Alex'') [] =
     Return () ((new_state ''a job'' ''Alex'')\<lparr>analyzed_requirements :=
        stub_requirements [''Django'', ''Azure'']\<rparr>)
       [JdCall (new_state ''a job'' ''Alex'') (Inr (stub_requirements [''Django'', ''Azure'']))] \<and>
   list_all (\<lambda>x. analyzed_requirements x = stub_requirements [''Django'', ''Azure''] \<and>
                 is_JobAnalysis (analyzed_requirements x))
     (q_sessions (out_trace (run_interview (stub_env [''Django'', ''Azure'']) ''a job'' ''Alex''))) \<and>
   length (q_sessions (out_trace (run_interview (stub_env [''Django'', ''Azure''])
       ''a job'' ''Alex''))) = 2"
proof -
  have "jd_agent (stub_env [''Django'', ''Azure'']) 0 ''a job'' =
      Inr (stub_requirements [''Django'', ''Azure''])"
    by (simp add: stub_env_def model_env_def)
  with stub_is_JobAnalysis stub_q_sessions
    requirements_before_questions [of "stub_env [''Django'', ''Azure'']" "''a job''"
      "stub_requirements [''Django'', ''Azure'']" "''Alex''"]
  show ?thesis by blast
qed

section \<open>The question generator and the evaluator\<close>

text \<open>
  C6. Whenever the question chain returns a text, \<^verbatim>\<open>generate_question\<close> returns it and
  appends it to the stored questions, with no test against the questions already
  there: the text occurs once more in the list than before.
\<close>

theorem question_appended:
  assumes "q_request state topic = Inr inp"
    and "q_agent e (length tr) inp = Inr response"
  shows "generate_question e state topic tr =
           Return response
             (state\<lparr>generated_questions := generated_questions state @ [response]\<rparr>)
             (tr @ [QCall state inp (Inr response)]) \<and>
         count_list (generated_questions (out_state (generate_question e state topic tr))) response =
           Suc (count_list (generated_questions state) response)"
  using assms by (simp add: generate_question_def)

lemma asked_request:
  "q_request asked_state (JStr ''Django'') =
     Inr \<lparr>role = JStr ''Senior Python Developer'', tech_skills = ''Django'',
          seniority = JStr ''Senior'', previous_questions = ''Tell me about Django'',
          focus_area = JStr ''Django''\<rparr>"
  by (simp add: stage_defs stub_defs asked_state_def)

text \<open>
  The stub returns for Django the question the session already holds; the list then
  holds it twice.
\<close>

theorem question_appended_witness:
  "generated_questions asked_state = [''Tell me about Django''] \<and>
   generated_questions (out_state
      (generate_question (stub_env [''Django'']) asked_state (JStr ''Django'') [])) =
     [''Tell me about Django'', ''Tell me about Django'']"
proof -
  have r: "q_agent (stub_env [''Django'']) (length ([]::event list))
      \<lparr>role = JStr ''Senior Python Developer'', tech_skills = ''Django'',
          seniority = JStr ''Senior'', previous_questions = ''Tell me about Django'',
          focus_area = JStr ''Django''\<rparr> = Inr ''Tell me about Django''"
    by (simp add: stub_defs)
  have g: "generated_questions asked_state = [''Tell me about Django'']"
    by (simp add: asked_state_def)
  from question_appended [OF asked_request r] g show ?thesis by simp
qed

text \<open>
  C7. Whenever the evaluation chain returns an object from which \<open>score\<close> and
  \<open>reasoning\<close> can be read, \<^verbatim>\<open>evaluate_answer\<close> appends one entry made of the question
  and the answer it was given and of these two values as they are, whatever the score.
\<close>

theorem evaluation_appended:
  assumes "py_get (analyzed_requirements state) ''technical_skills'' JNull = Inr sk"
    and "eval_agent e (length tr) \<lparr>question_in = q, answer_in = a, skills = sk\<rparr> = Inr result"
    and "py_getitem result ''score'' = Inr sc"
    and "py_getitem result ''reasoning'' = Inr rs"
  shows "evaluate_answer e state q a tr =
           Return result
             (state\<lparr>evaluations := evaluations state @
                [\<lparr>question = q, answer = a, score = sc, reasoning = rs\<rparr>]\<rparr>)
             (tr @ [EvalCall state \<lparr>question_in = q, answer_in = a, skills = sk\<rparr> (Inr result)])"
  using assms by (simp add: evaluate_answer_def)

text \<open>
  A score of 42 is stored as 42.
\<close>

theorem evaluation_appended_witness:
  "evaluations (out_state
     (evaluate_answer (model_env (Inr (stub_requirements [''Django''])) (Inr off_scale_evaluation))
        asked_state ''Tell me about Django'' ''no idea'' [])) =
     [\<lparr>question = ''Tell me about Django'', answer = ''no idea'', score = JInt 42,
       reasoning = JStr ''off the scale''\<rparr>]"
proof -
  have sk: "py_get (analyzed_requirements asked_state) ''technical_skills'' JNull =
      Inr (JList [JStr ''Django''])"
    by (simp add: stub_defs asked_state_def)
  have r: "eval_agent (model_env (Inr (stub_requirements [''Django''])) (Inr off_scale_evaluation))
      (length ([]::event list))
      \<lparr>question_in = ''Tell me about Django'', answer_in = ''no idea'',
       skills = JList [JStr ''Django'']\<rparr> = Inr off_scale_evaluation"
    by (simp add: model_env_def)
  have sc: "py_getitem off_scale_evaluation ''score'' = Inr (JInt 42)"
    and rs: "py_getitem off_scale_evaluation ''reasoning'' = Inr (JStr ''off the scale'')"
    by (simp_all add: off_scale_evaluation_def)
  have ev: "evaluations asked_state = []"
    by (simp add: asked_state_def new_state_def)
  from evaluation_appended [OF sk r sc rs] ev show ?thesis by simp
qed

section \<open>The synthesizer\<close>

lemma summary_loop_concat:
  "summary_loop rp evs acc = acc @ concat (map (entry_text rp) evs)"
  by (induction evs arbitrary: acc) simp_all

lemma interview_loop_other_calls:
  "calls is_RecCall (out_trace (interview_loop e topics s tr)) = calls is_RecCall tr \<and>
   calls is_JdCall (out_trace (interview_loop e topics s tr)) = calls is_JdCall tr"
proof -
  let ?I = "\<lambda>(x::InterviewState) (t::event list).
    calls is_RecCall t = calls is_RecCall tr \<and> calls is_JdCall t = calls is_JdCall tr"
  have "?I (out_state (interview_loop e topics s tr)) (out_trace (interview_loop e topics s tr))"
  proof (rule interview_loop_invariant [where I = ?I])
    show "?I s tr" by simp
  next
    fix x :: InterviewState and t topic
    assume "?I x t"
    then show "?I (out_state (generate_question e x topic t))
                  (out_trace (generate_question e x topic t))"
      by (cases "generate_question e x topic t")
        (auto simp: calls_append calls_def dest!: generate_question_Return generate_question_Raise)
  next
    fix x :: InterviewState and t r
    assume "?I x t"
    then show "?I x (t @ [AnswerRead r])" by (simp add: calls_def)
  next
    fix x :: InterviewState and t q a
    assume "?I x t"
    then show "?I (out_state (evaluate_answer e x q a t)) (out_trace (evaluate_answer e x q a t))"
      by (cases "evaluate_answer e x q a t")
        (auto simp: calls_append calls_def dest!: evaluate_answer_Return evaluate_answer_Raise)
  qed
  then show ?thesis by simp
qed

lemma run_interview_Raise_final:
  assumes "run_interview e jd_text name = Raise err s tr"
  shows "final_recommendation s = None"
proof (cases "analyze_jd e (new_state jd_text name) []")
  case (Raise err1 s1 t1)
  with assms analyze_jd_Raise [OF Raise] show ?thesis
    by (auto simp: run_interview_def new_state_fields)
next
  case (Return u s1 t1)
  from analyze_jd_Return [OF Return] have f1: "final_recommendation s1 = None"
    by (auto simp: new_state_fields)
  show ?thesis
  proof (cases "select_topics s1")
    case (Inl err2)
    with assms Return f1 show ?thesis by (simp add: run_interview_def)
  next
    case (Inr topics)
    from interview_loop_frame [of e topics s1 t1] f1
    have f2: "final_recommendation (out_state (interview_loop e topics s1 t1)) = None"
      by simp
    show ?thesis
    proof (cases "interview_loop e topics s1 t1")
      case (Raise err3 s2 t2)
      with assms Return Inr f2 show ?thesis by (simp add: run_interview_def)
    next
      case lret: (Return u2 s2 t2)
      show ?thesis
      proof (cases "generate_final_decision e s2 t2")
        case (Raise err4 s3 t3)
        with assms Return Inr lret f2 generate_final_decision_Raise [OF Raise] show ?thesis
          by (simp add: run_interview_def)
      next
        case fret: (Return d s3 t3)
        with assms Return Inr lret show ?thesis by (simp add: run_interview_def)
      qed
    qed
  qed
qed

lemma run_interview_Return_final:
  assumes "run_interview e jd_text name = Return v s tr"
  shows "calls is_RecCall tr = 1 \<and>
     (\<exists>s2 inp d. tr = butlast tr @ [RecCall s2 inp (Inr d)] \<and>
        evaluations_in inp = concat (map (entry_text (py_repr e)) (evaluations s)) \<and>
        evaluations s2 = evaluations s \<and>
        final_recommendation s2 = None \<and>
        final_recommendation s = Some d)"
proof -
  from run_interview_Return [OF assms] obtain s1 t1 topics s2 t2 d where
    an: "analyze_jd e (new_state jd_text name) [] = Return () s1 t1" and
    lp: "interview_loop e topics s1 t1 = Return () s2 t2" and
    fin: "generate_final_decision e s2 t2 = Return d s tr"
    by blast
  from analyze_jd_Return [OF an] have s1: "final_recommendation s1 = None"
    "calls is_RecCall t1 = 0"
    by (auto simp: new_state_fields calls_def)
  from interview_loop_frame [of e topics s1 t1] interview_loop_other_calls [of e topics s1 t1]
    lp s1
  have s2: "final_recommendation s2 = None" "calls is_RecCall t2 = 0"
    by simp_all
  from generate_final_decision_Return [OF fin] obtain r where
    f: "s = s2\<lparr>final_recommendation := Some d\<rparr>"
       "tr = t2 @ [RecCall s2 \<lparr>name_in = candidate_name s2, role_in = r,
          evaluations_in = summary_loop (py_repr e) (evaluations s2) []\<rparr> (Inr d)]"
    by blast
  have c: "calls is_RecCall tr = 1"
    using f(2) s2(2) by (simp add: calls_append) (simp add: calls_def)
  have "tr = butlast tr @ [RecCall s2 \<lparr>name_in = candidate_name s2, role_in = r,
          evaluations_in = summary_loop (py_repr e) (evaluations s2) []\<rparr> (Inr d)] \<and>
        evaluations_in \<lparr>name_in = candidate_name s2, role_in = r,
          evaluations_in = summary_loop (py_repr e) (evaluations s2) []\<rparr> =
          concat (map (entry_text (py_repr e)) (evaluations s)) \<and>
        evaluations s2 = evaluations s \<and>
        final_recommendation s2 = None \<and>
        final_recommendation s = Some d"
    using f s2(1) by (simp add: summary_loop_concat)
  with c show ?thesis by blast
qed

text \<open>
  C8. The summary sent to the recommendation chain is the concatenation, in log order,
  of one block per evaluation holding its question, its score and its rationale.
  When the chain returns a verdict, \<^verbatim>\<open>generate_final_decision\<close> returns it and stores it
  unchanged as the final recommendation. In a run that goes through, the chain is
  called exactly once, as the last external call, on a session that already holds
  every evaluation of the final session and has no recommendation yet; a run that
  raises leaves the recommendation unset.
\<close>

theorem recommendation_stored:
  "(py_get (analyzed_requirements state) ''role_title'' JNull = Inr r \<and>
    rec_agent e (length tr)
      \<lparr>name_in = candidate_name state, role_in = r,
       evaluations_in = concat (map (entry_text (py_repr e)) (evaluations state))\<rparr> = Inr decision
    \<longrightarrow>
      generate_final_decision e state tr =
        Return decision (state\<lparr>final_recommendation := Some decision\<rparr>)
          (tr @ [RecCall state
             \<lparr>name_in = candidate_name state, role_in = r,
              evaluations_in = concat (map (entry_text (py_repr e)) (evaluations state))\<rparr>
             (Inr decision)])) \<and>
   (run_interview e jd_text name = Return v s tr' \<longrightarrow>
      calls is_RecCall tr' = 1 \<and>
      (\<exists>s2 inp d. tr' = butlast tr' @ [RecCall s2 inp (Inr d)] \<and>
         evaluations_in inp = concat (map (entry_text (py_repr e)) (evaluations s)) \<and>
         evaluations s2 = evaluations s \<and>
         final_recommendation s2 = None \<and>
         final_recommendation s = Some d)) \<and>
   (run_interview e jd_text name = Raise err s tr' \<longrightarrow> final_recommendation s = None)"
proof (intro conjI impI)
  assume "py_get (analyzed_requirements state) ''role_title'' JNull = Inr r \<and>
    rec_agent e (length tr)
      \<lparr>name_in = candidate_name state, role_in = r,
       evaluations_in = concat (map (entry_text (py_repr e)) (evaluations state))\<rparr> = Inr decision"
  then show "generate_final_decision e state tr =
        Return decision (state\<lparr>final_recommendation := Some decision\<rparr>)
          (tr @ [RecCall state
             \<lparr>name_in = candidate_name state, role_in = r,
              evaluations_in = concat (map (entry_text (py_repr e)) (evaluations state))\<rparr>
             (Inr decision)])"
    by (simp add: generate_final_decision_def summary_loop_concat)
next
  assume "run_interview e jd_text name = Return v s tr'"
  from run_interview_Return_final [OF this]
  show "calls is_RecCall tr' = 1"
    and "\<exists>s2 inp d. tr' = butlast tr' @ [RecCall s2 inp (Inr d)] \<and>
         evaluations_in inp = concat (map (entry_text (py_repr e)) (evaluations s)) \<and>
         evaluations s2 = evaluations s \<and>
         final_recommendation s2 = None \<and>
         final_recommendation s = Some d"
    by blast+
next
  assume "run_interview e jd_text name = Raise err s tr'"
  then show "final_recommendation s = None" by (rule run_interview_Raise_final)
qed


lemma evaluated_summary:
  "concat (map (entry_text (py_repr (stub_env [''Django'']))) (evaluations evaluated_state)) =
     ''Q: Tell me about Django'' @ [CHR 0x0A] @ ''Score: 7/10'' @ [CHR 0x0A] @
     ''Notes: ok'' @ [CHR 0x0A, CHR 0x0A]"
  by (simp add: evaluated_state_def entry_text_def str_int_def)

lemma two_run:
  "\<exists>s tr. run_interview (stub_env [''Django'', ''Azure'']) ''a job'' ''Alex'' = Return () s tr \<and>
     final_recommendation s = Some ''HIRE'' \<and> length (evaluations s) = 2"
  by (simp add: run_interview_def stage_defs stub_defs)

text \<open>
  One evaluation gives the summary of one block; the stubbed run of two topics calls
  the recommendation chain once.
\<close>

theorem recommendation_stored_witness:
  "generate_final_decision (stub_env [''Django'']) evaluated_state [] =
     Return ''HIRE'' (evaluated_state\<lparr>final_recommendation := Some ''HIRE''\<rparr>)
       [RecCall evaluated_state
          \<lparr>name_in = ''Alex'', role_in = JStr ''Senior Python Developer'',
           evaluations_in =
             ''Q: Tell me about Django'' @ [CHR 0x0A] @ ''Score: 7/10'' @ [CHR 0x0A] @
             ''Notes: ok'' @ [CHR 0x0A, CHR 0x0A]\<rparr>
          (Inr ''HIRE'')] \<and>
   (\<exists>s tr. run_interview (stub_env [''Django'', ''Azure'']) ''a job'' ''Alex'' = Return () s tr \<and>
      calls is_RecCall tr = 1 \<and> length (evaluations s) = 2 \<and>
      final_recommendation s = Some ''HIRE'')"
proof -
  from two_run obtain s tr where
    run: "run_interview (stub_env [''Django'', ''Azure'']) ''a job'' ''Alex'' = Return () s tr" and
    s: "final_recommendation s = Some ''HIRE''" "length (evaluations s) = 2"
    by blast
  have role: "py_get (analyzed_requirements evaluated_state) ''role_title'' JNull =
      Inr (JStr ''Senior Python Developer'')"
    by (simp add: evaluated_state_def asked_state_def stub_defs)
  have name: "candidate_name evaluated_state = ''Alex''"
    by (simp add: evaluated_state_def asked_state_def new_state_def)
  have rec: "rec_agent (stub_env [''Django'']) (length ([]::event list))
      \<lparr>name_in = candidate_name evaluated_state, role_in = JStr ''Senior Python Developer'',
       evaluations_in = concat (map (entry_text (py_repr (stub_env [''Django''])))
         (evaluations evaluated_state))\<rparr> = Inr ''HIRE''"
    by (simp add: stub_env_def model_env_def)
  note t = recommendation_stored [where state = evaluated_state and e = "stub_env [''Django'']"
      and r = "JStr ''Senior Python Developer''" and tr = "[]" and decision = "''HIRE''"]
  from t role rec have a: "generate_final_decision (stub_env [''Django'']) evaluated_state [] =
     Return ''HIRE'' (evaluated_state\<lparr>final_recommendation := Some ''HIRE''\<rparr>)
       [RecCall evaluated_state
          \<lparr>name_in = candidate_name evaluated_state, role_in = JStr ''Senior Python Developer'',
           evaluations_in = concat (map (entry_text (py_repr (stub_env [''Django''])))
             (evaluations evaluated_state))\<rparr>
          (Inr ''HIRE'')]"
    by simp
  from recommendation_stored [where e = "stub_env [''Django'', ''Azure'']" and jd_text = "''a job''"
      and name = "''Alex''" and v = "()" and s = s and tr' = tr] run
  have b: "calls is_RecCall tr = 1" by blast
  from a have a': "generate_final_decision (stub_env [''Django'']) evaluated_state [] =
     Return ''HIRE'' (evaluated_state\<lparr>final_recommendation := Some ''HIRE''\<rparr>)
       [RecCall evaluated_state
          \<lparr>name_in = ''Alex'', role_in = JStr ''Senior Python Developer'',
           evaluations_in =
             ''Q: Tell me about Django'' @ [CHR 0x0A] @ ''Score: 7/10'' @ [CHR 0x0A] @
             ''Notes: ok'' @ [CHR 0x0A, CHR 0x0A]\<rparr>
          (Inr ''HIRE'')]"
    by (simp only: evaluated_summary name)
  from a' run b s show ?thesis by blast
qed

section \<open>Frames\<close>

lemma run_interview_frame:
  "candidate_name (out_state (run_interview e jd_text name)) = name \<and>
   job_description (out_state (run_interview e jd_text name)) = jd_text"
proof (cases "analyze_jd e (new_state jd_text name) []")
  case (Raise err1 s1 t1)
  with analyze_jd_Raise [OF Raise] show ?thesis
    by (auto simp: run_interview_def new_state_fields)
next
  case (Return u s1 t1)
  from analyze_jd_Return [OF Return] have f1: "candidate_name s1 = name" "job_description s1 = jd_text"
    by (auto simp: new_state_fields)
  show ?thesis
  proof (cases "select_topics s1")
    case (Inl err2)
    with Return f1 show ?thesis by (simp add: run_interview_def)
  next
    case (Inr topics)
    from interview_loop_frame [of e topics s1 t1] f1
    have f2: "candidate_name (out_state (interview_loop e topics s1 t1)) = name"
      "job_description (out_state (interview_loop e topics s1 t1)) = jd_text"
      by simp_all
    show ?thesis
    proof (cases "interview_loop e topics s1 t1")
      case (Raise err3 s2 t2)
      with Return Inr f2 show ?thesis by (simp add: run_interview_def)
    next
      case lret: (Return u2 s2 t2)
      show ?thesis
      proof (cases "generate_final_decision e s2 t2")
        case (Raise err4 s3 t3)
        with Return Inr lret f2 generate_final_decision_Raise [OF Raise] show ?thesis
          by (simp add: run_interview_def)
      next
        case fret: (Return d s3 t3)
        with Return Inr lret f2 generate_final_decision_Return [OF fret] show ?thesis
          by (auto simp: run_interview_def)
      qed
    qed
  qed
qed

lemma analyze_jd_frame:
  "out_state (analyze_jd e s tr) =
     s\<lparr>analyzed_requirements := analyzed_requirements (out_state (analyze_jd e s tr))\<rparr>"
  by (cases "analyze_jd e s tr") (auto dest!: analyze_jd_Return analyze_jd_Raise)

lemma generate_question_frame:
  "out_state (generate_question e s topic tr) =
     s\<lparr>generated_questions := generated_questions (out_state (generate_question e s topic tr))\<rparr> \<and>
   prefix (generated_questions s) (generated_questions (out_state (generate_question e s topic tr)))"
  by (cases "generate_question e s topic tr")
    (auto dest!: generate_question_Return generate_question_Raise)

lemma evaluate_answer_frame:
  "out_state (evaluate_answer e s q a tr) =
     s\<lparr>evaluations := evaluations (out_state (evaluate_answer e s q a tr))\<rparr> \<and>
   prefix (evaluations s) (evaluations (out_state (evaluate_answer e s q a tr)))"
  by (cases "evaluate_answer e s q a tr")
    (auto dest!: evaluate_answer_Return evaluate_answer_Raise)

lemma generate_final_decision_frame:
  "out_state (generate_final_decision e s tr) =
     s\<lparr>final_recommendation := final_recommendation (out_state (generate_final_decision e s tr))\<rparr>"
  by (cases "generate_final_decision e s tr")
    (auto dest!: generate_final_decision_Return generate_final_decision_Raise)

text \<open>
  C9. Whether it returns or raises, each stage leaves the session as it was but for
  its own field: \<^verbatim>\<open>analyze_jd\<close> the requirements, \<^verbatim>\<open>generate_question\<close> the questions,
  \<^verbatim>\<open>evaluate_answer\<close> the evaluations, \<^verbatim>\<open>generate_final_decision\<close> the recommendation.
  The questions and the evaluations before a stage or the loop are a prefix of those
  after it, and the candidate name and the job description of a run are those it was
  started with.
\<close>

theorem stage_frames:
  "out_state (analyze_jd e s tr) =
     s\<lparr>analyzed_requirements := analyzed_requirements (out_state (analyze_jd e s tr))\<rparr> \<and>
   out_state (generate_question e s topic tr) =
     s\<lparr>generated_questions := generated_questions (out_state (generate_question e s topic tr))\<rparr> \<and>
   prefix (generated_questions s)
     (generated_questions (out_state (generate_question e s topic tr))) \<and>
   out_state (evaluate_answer e s q a tr) =
     s\<lparr>evaluations := evaluations (out_state (evaluate_answer e s q a tr))\<rparr> \<and>
   prefix (evaluations s) (evaluations (out_state (evaluate_answer e s q a tr))) \<and>
   out_state (generate_final_decision e s tr) =
     s\<lparr>final_recommendation :=
         final_recommendation (out_state (generate_final_decision e s tr))\<rparr> \<and>
   prefix (generated_questions s)
     (generated_questions (out_state (interview_loop e topics s tr))) \<and>
   prefix (evaluations s) (evaluations (out_state (interview_loop e topics s tr))) \<and>
   candidate_name (out_state (interview_loop e topics s tr)) = candidate_name s \<and>
   job_description (out_state (interview_loop e topics s tr)) = job_description s \<and>
   candidate_name (out_state (run_interview e jd_text name)) = name \<and>
   job_description (out_state (run_interview e jd_text name)) = jd_text"
  using analyze_jd_frame [of e s tr] generate_question_frame [of e s topic tr]
    evaluate_answer_frame [of e s q a tr] generate_final_decision_frame [of e s tr]
    interview_loop_grows [of s e topics tr] interview_loop_frame [of e topics s tr]
    run_interview_frame [of e jd_text name]
  by blast

section \<open>An extraction without technical skills\<close>

text \<open>
  C10. When the extraction returns an object with a role title whose technical skills
  are missing or empty, \<^verbatim>\<open>analyze_jd\<close> returns, the run makes no call of the question
  chain, reads no answer and makes no call of the evaluation chain, and goes straight
  to the recommendation chain with an empty summary; with its verdict the session ends
  with no evaluation and the recommendation set.
\<close>

theorem no_technical_skills:
  assumes "jd_agent e 0 jd_text = Inr (JDict d)"
    and "map_of d ''role_title'' = Some r"
    and "map_of d ''technical_skills'' = None \<or> map_of d ''technical_skills'' = Some (JList [])"
    and "rec_agent e 1 \<lparr>name_in = name, role_in = r, evaluations_in = []\<rparr> = Inr verdict"
  shows "analyze_jd e (new_state jd_text name) [] =
           Return () ((new_state jd_text name)\<lparr>analyzed_requirements := JDict d\<rparr>)
             [JdCall (new_state jd_text name) (Inr (JDict d))] \<and>
         run_interview e jd_text name =
           Return ()
             ((new_state jd_text name)
                \<lparr>analyzed_requirements := JDict d, final_recommendation := Some verdict\<rparr>)
             [JdCall (new_state jd_text name) (Inr (JDict d)),
              RecCall ((new_state jd_text name)\<lparr>analyzed_requirements := JDict d\<rparr>)
                \<lparr>name_in = name, role_in = r, evaluations_in = []\<rparr> (Inr verdict)] \<and>
         evaluations (out_state (run_interview e jd_text name)) = [] \<and>
         final_recommendation (out_state (run_interview e jd_text name)) = Some verdict \<and>
         calls is_QCall (out_trace (run_interview e jd_text name)) = 0 \<and>
         calls is_AnswerRead (out_trace (run_interview e jd_text name)) = 0 \<and>
         calls is_EvalCall (out_trace (run_interview e jd_text name)) = 0 \<and>
         calls is_RecCall (out_trace (run_interview e jd_text name)) = 1"
proof -
  have role: "py_getitem (JDict d) ''role_title'' = Inr r"
    using assms(2) by simp
  from analyze_jd_role [of e "[]" "new_state jd_text name" "JDict d" r] assms(1) role
  have an: "analyze_jd e (new_state jd_text name) [] =
           Return () ((new_state jd_text name)\<lparr>analyzed_requirements := JDict d\<rparr>)
             [JdCall (new_state jd_text name) (Inr (JDict d))]"
    by (simp add: new_state_fields)
  have sel: "select_topics ((new_state jd_text name)\<lparr>analyzed_requirements := JDict d\<rparr>) = Inr []"
    using assms(3) by (auto simp: select_topics_def)
  have fin: "generate_final_decision e ((new_state jd_text name)\<lparr>analyzed_requirements := JDict d\<rparr>)
        [JdCall (new_state jd_text name) (Inr (JDict d))] =
      Return verdict
        ((new_state jd_text name)
           \<lparr>analyzed_requirements := JDict d, final_recommendation := Some verdict\<rparr>)
        [JdCall (new_state jd_text name) (Inr (JDict d)),
         RecCall ((new_state jd_text name)\<lparr>analyzed_requirements := JDict d\<rparr>)
           \<lparr>name_in = name, role_in = r, evaluations_in = []\<rparr> (Inr verdict)]"
    using assms(2,4) by (simp add: generate_final_decision_def new_state_fields)
  have run: "run_interview e jd_text name =
           Return ()
             ((new_state jd_text name)
                \<lparr>analyzed_requirements := JDict d, final_recommendation := Some verdict\<rparr>)
             [JdCall (new_state jd_text name) (Inr (JDict d)),
              RecCall ((new_state jd_text name)\<lparr>analyzed_requirements := JDict d\<rparr>)
                \<lparr>name_in = name, role_in = r, evaluations_in = []\<rparr> (Inr verdict)]"
    by (simp add: run_interview_def an sel fin)
  show ?thesis
    by (simp add: an run calls_def new_state_fields)
qed

text \<open>
  An extraction that names the role only.
\<close>

theorem no_technical_skills_witness:
  "analyze_jd (model_env (Inr role_only_requirements) (Inr stub_evaluation))
       (new_state ''a job'' ''Alex'') [] =
     Return () ((new_state ''a job'' ''Alex'')\<lparr>analyzed_requirements := role_only_requirements\<rparr>)
       [JdCall (new_state ''a job'' ''Alex'') (Inr role_only_requirements)] \<and>
   evaluations (out_state (run_interview
      (model_env (Inr role_only_requirements) (Inr stub_evaluation)) ''a job'' ''Alex'')) = [] \<and>
   final_recommendation (out_state (run_interview
      (model_env (Inr role_only_requirements) (Inr stub_evaluation)) ''a job'' ''Alex'')) =
     Some ''HIRE'' \<and>
   calls is_QCall (out_trace (run_interview
      (model_env (Inr role_only_requirements) (Inr stub_evaluation)) ''a job'' ''Alex'')) = 0 \<and>
   calls is_RecCall (out_trace (run_interview
      (model_env (Inr role_only_requirements) (Inr stub_evaluation)) ''a job'' ''Alex'')) = 1"
proof -
  have jd: "jd_agent (model_env (Inr role_only_requirements) (Inr stub_evaluation)) 0 ''a job'' =
      Inr (JDict [(''role_title'', JStr ''Developer'')])"
    by (simp add: model_env_def role_only_requirements_def)
  have r: "map_of [(''role_title'', JStr ''Developer'')] ''role_title'' = Some (JStr ''Developer'')"
    by simp
  have ts: "map_of [(''role_title'', JStr ''Developer'')] ''technical_skills'' = None \<or>
      map_of [(''role_title'', JStr ''Developer'')] ''technical_skills'' = Some (JList [])"
    by simp
  have v: "rec_agent (model_env (Inr role_only_requirements) (Inr stub_evaluation)) 1
      \<lparr>name_in = ''Alex'', role_in = JStr ''Developer'', evaluations_in = []\<rparr> = Inr ''HIRE''"
    by (simp add: model_env_def)
  from no_technical_skills [OF jd r ts v] show ?thesis
    unfolding role_only_requirements_def by blast
qed

end
